theory Spec2Isabelle
  imports Complex_Main "HOL-Library.Word"
begin

section \<open>Strings\<close>

text \<open>
  An ECMAScript string is a sequence of 16-bit code units; \<open>length\<close>, \<open>substring\<close> and
  \<open>===\<close> work on code units. String literals of the source are ASCII and are written
  with \<open>lit\<close>.
\<close>

type_synonym jschar = "16 word"
type_synonym jsstring = "jschar list"

definition cu :: "char \<Rightarrow> jschar" where
  "cu c = of_nat (of_char c)"

definition lit :: "string \<Rightarrow> jsstring" where
  "lit s = map cu s"

subsection \<open>Decimal digits\<close>

definition is_digit :: "jschar \<Rightarrow> bool" where
  "is_digit c = (48 \<le> unat c \<and> unat c \<le> 57)"

definition digit_val :: "jschar \<Rightarrow> nat" where
  "digit_val c = unat c - 48"

definition digit_char :: "nat \<Rightarrow> jschar" where
  "digit_char d = of_nat (48 + d)"

text \<open>The mathematical value of a run of decimal digits.\<close>

definition digits_val :: "jsstring \<Rightarrow> nat" where
  "digits_val ds = foldl (\<lambda>a c. 10 * a + digit_val c) 0 ds"

text \<open>The decimal digits of a natural number, most significant first, no leading zero.\<close>

fun show_nat :: "nat \<Rightarrow> jsstring" where
  "show_nat n = (if n < 10 then [digit_char n] else show_nat (n div 10) @ [digit_char (n mod 10)])"

text \<open>ToZeroPaddedDecimalString(n, minLength).\<close>

definition zero_padded :: "nat \<Rightarrow> nat \<Rightarrow> jsstring" where
  "zero_padded n min_length =
     replicate (min_length - length (show_nat n)) (cu CHR ''0'') @ show_nat n"

section \<open>Numbers\<close>

text \<open>
  A Number is an IEEE 754 binary64 value: NaN, the two infinities, negative zero, or a
  finite value, kept here as the rational it denotes (\<open>Fin 0\<close> is positive zero).
\<close>

datatype jsnum = NaN | NegZero | PosInf | NegInf | Fin rat

fun bit_length :: "nat \<Rightarrow> nat" where
  "bit_length n = (if n = 0 then 0 else Suc (bit_length (n div 2)))"

definition pow2 :: "int \<Rightarrow> rat" where
  "pow2 e = (if 0 \<le> e then 2 ^ nat e else 1 / 2 ^ nat (- e))"

definition pow10 :: "int \<Rightarrow> rat" where
  "pow10 e = (if 0 \<le> e then 10 ^ nat e else 1 / 10 ^ nat (- e))"

text \<open>For \<open>0 < q\<close>, the integer \<open>e\<close> with \<open>2 ^ e \<le> q < 2 ^ (e + 1)\<close>.\<close>

definition floor_log2 :: "rat \<Rightarrow> int" where
  "floor_log2 q = (case quotient_of q of (a, b) \<Rightarrow>
     (let e0 = int (bit_length (nat a)) - int (bit_length (nat b))
      in if pow2 e0 \<le> q then e0 else e0 - 1))"

definition round_half_even :: "rat \<Rightarrow> int" where
  "round_half_even x = (let f = \<lfloor>x\<rfloor>; d = x - of_int f
     in if d < 1 / 2 then f else if 1 / 2 < d then f + 1 else if even f then f else f + 1)"

text \<open>
  Rounding a positive rational to binary64, ties to even: 53 significant bits, the least
  exponent \<open>- 1074\<close>; \<open>None\<close> when the rounded value reaches \<open>2 ^ 1024\<close>.
\<close>

definition round_binary64 :: "rat \<Rightarrow> rat option" where
  "round_binary64 q = (let u = max (floor_log2 q - 52) (- 1074);
       r = of_int (round_half_even (q / pow2 u)) * pow2 u
     in if pow2 1024 \<le> r then None else Some r)"

text \<open>The Number value for a magnitude \<open>0 \<le> q\<close> with a sign.\<close>

definition number_for :: "bool \<Rightarrow> rat \<Rightarrow> jsnum" where
  "number_for neg q = (if q = 0 then (if neg then NegZero else Fin 0)
     else (case round_binary64 q of
       None \<Rightarrow> (if neg then NegInf else PosInf)
     | Some r \<Rightarrow> if r = 0 then (if neg then NegZero else Fin 0) else Fin (if neg then - r else r)))"

subsection \<open>StringToNumber, the conversion behind \<open>Number(source)\<close>\<close>

text \<open>StrWhiteSpaceChar: WhiteSpace and LineTerminator.\<close>

definition is_white_space :: "jschar \<Rightarrow> bool" where
  "is_white_space c = (unat c \<in> {9, 10, 11, 12, 13, 32, 160, 5760, 8232, 8233, 8239, 8287, 12288, 65279}
     \<or> (8192 \<le> unat c \<and> unat c \<le> 8202))"

definition trim :: "jsstring \<Rightarrow> jsstring" where
  "trim s = rev (dropWhile is_white_space (rev (dropWhile is_white_space s)))"

definition radix_digit :: "nat \<Rightarrow> jschar \<Rightarrow> nat option" where
  "radix_digit b c = (let u = unat c;
       d = (if 48 \<le> u \<and> u \<le> 57 then u - 48
            else if 97 \<le> u \<and> u \<le> 102 then u - 87
            else if 65 \<le> u \<and> u \<le> 70 then u - 55 else 16)
     in if d < b then Some d else None)"

fun radix_val :: "nat \<Rightarrow> nat \<Rightarrow> jsstring \<Rightarrow> nat option" where
  "radix_val b a [] = Some a"
| "radix_val b a (c # cs) =
     (case radix_digit b c of None \<Rightarrow> None | Some d \<Rightarrow> radix_val b (b * a + d) cs)"

text \<open>NonDecimalIntegerLiteral: \<open>0x\<close>, \<open>0o\<close> or \<open>0b\<close> and at least one digit.\<close>

definition non_decimal_literal :: "jsstring \<Rightarrow> nat option" where
  "non_decimal_literal s = (case s of
       z # x # d # ds \<Rightarrow>
         if z \<noteq> cu CHR ''0'' then None
         else if x = cu CHR ''x'' \<or> x = cu CHR ''X'' then radix_val 16 0 (d # ds)
         else if x = cu CHR ''o'' \<or> x = cu CHR ''O'' then radix_val 8 0 (d # ds)
         else if x = cu CHR ''b'' \<or> x = cu CHR ''B'' then radix_val 2 0 (d # ds)
         else None
     | _ \<Rightarrow> None)"

definition all_digits :: "jsstring \<Rightarrow> bool" where
  "all_digits s = (s \<noteq> [] \<and> list_all is_digit s)"

text \<open>SignedInteger.\<close>

definition signed_integer :: "jsstring \<Rightarrow> int option" where
  "signed_integer s = (case s of
       [] \<Rightarrow> None
     | c # r \<Rightarrow>
         if c = cu CHR ''+'' then (if all_digits r then Some (int (digits_val r)) else None)
         else if c = cu CHR ''-'' then (if all_digits r then Some (- int (digits_val r)) else None)
         else if all_digits s then Some (int (digits_val s)) else None)"

text \<open>An optional ExponentPart that ends the literal: its value, 0 when it is absent.\<close>

definition exponent_part :: "jsstring \<Rightarrow> int option" where
  "exponent_part s = (case s of
       [] \<Rightarrow> Some 0
     | c # r \<Rightarrow> if c = cu CHR ''e'' \<or> c = cu CHR ''E'' then signed_integer r else None)"

text \<open>
  StrUnsignedDecimalLiteral other than \<open>Infinity\<close>: digits, an optional fraction and an
  optional exponent, with a digit before or after the point.
\<close>

definition unsigned_decimal :: "jsstring \<Rightarrow> rat option" where
  "unsigned_decimal s = (let ip = takeWhile is_digit s; r1 = dropWhile is_digit s in
     case r1 of
       [] \<Rightarrow> if ip = [] then None else Some (of_nat (digits_val ip))
     | c # r \<Rightarrow>
         if c = cu CHR ''.'' then
           (let fp = takeWhile is_digit r; r2 = dropWhile is_digit r in
            if ip = [] \<and> fp = [] then None
            else (case exponent_part r2 of
              None \<Rightarrow> None
            | Some e \<Rightarrow> Some ((of_nat (digits_val ip)
                  + of_nat (digits_val fp) * pow10 (- int (length fp))) * pow10 e)))
         else if ip = [] then None
         else (case exponent_part r1 of
              None \<Rightarrow> None
            | Some e \<Rightarrow> Some (of_nat (digits_val ip) * pow10 e)))"

text \<open>StrDecimalLiteral: an optional sign, then \<open>Infinity\<close> or an unsigned decimal.\<close>

definition str_decimal_literal :: "jsstring \<Rightarrow> jsnum option" where
  "str_decimal_literal s = (let
       neg = (case s of [] \<Rightarrow> False | c # _ \<Rightarrow> c = cu CHR ''-'');
       body = (case s of [] \<Rightarrow> [] | c # r \<Rightarrow> if c = cu CHR ''+'' \<or> c = cu CHR ''-'' then r else s)
     in if body = lit ''Infinity'' then Some (if neg then NegInf else PosInf)
        else (case unsigned_decimal body of
          None \<Rightarrow> None
        | Some q \<Rightarrow> Some (number_for neg q)))"

text \<open>
  StringToNumber: NaN when the trimmed text is no StringNumericLiteral, \<open>+0\<close> when it is
  empty. A literal of more than 20 significant digits is rounded exactly, which is one of
  the choices the standard leaves to the implementation.
\<close>

definition string_to_number :: "jsstring \<Rightarrow> jsnum" where
  "string_to_number str = (let s = trim str in
     if s = [] then Fin 0
     else (case non_decimal_literal s of
       Some n \<Rightarrow> number_for False (of_nat n)
     | None \<Rightarrow> (case str_decimal_literal s of Some x \<Rightarrow> x | None \<Rightarrow> NaN)))"

section \<open>Dates\<close>

text \<open>
  A Date holds a time value: an integral number of milliseconds since the epoch, at most
  \<open>8.64 * 10 ^ 15\<close> in magnitude, or NaN (an Invalid Date), here \<open>None\<close>. The day and
  time functions are those of the standard.
\<close>

type_synonym timevalue = "int option"

definition TimeClip :: "timevalue \<Rightarrow> timevalue" where
  "TimeClip tv = (case tv of
       None \<Rightarrow> None
     | Some t \<Rightarrow> if 8640000000000000 < \<bar>t\<bar> then None else Some t)"

definition Day :: "int \<Rightarrow> int" where
  "Day t = t div 86400000"

definition DaysInYear :: "int \<Rightarrow> int" where
  "DaysInYear y = (if y mod 4 \<noteq> 0 then 365 else if y mod 100 \<noteq> 0 then 366
     else if y mod 400 \<noteq> 0 then 365 else 366)"

definition DayFromYear :: "int \<Rightarrow> int" where
  "DayFromYear y = 365 * (y - 1970) + (y - 1969) div 4 - (y - 1901) div 100 + (y - 1601) div 400"

text \<open>
  The year of a day number: the largest \<open>y\<close> with \<open>DayFromYear y \<le> d\<close>, computed from the
  mean length of a year (146097 days in 400 years) and corrected by at most one.
\<close>

definition YearFromDay :: "int \<Rightarrow> int" where
  "YearFromDay d = (let y = 1970 + (400 * d) div 146097
     in if d < DayFromYear y then y - 1 else if DayFromYear (y + 1) \<le> d then y + 1 else y)"

definition YearFromTime :: "int \<Rightarrow> int" where
  "YearFromTime t = YearFromDay (Day t)"

definition InLeapYear :: "int \<Rightarrow> int" where
  "InLeapYear t = (if DaysInYear (YearFromTime t) = 366 then 1 else 0)"

definition DayWithinYear :: "int \<Rightarrow> int" where
  "DayWithinYear t = Day t - DayFromYear (YearFromTime t)"

text \<open>The day within the year on which month \<open>m\<close> (0 to 11) starts; \<open>l\<close> is 1 in a leap year.\<close>

definition month_start :: "int \<Rightarrow> nat \<Rightarrow> int" where
  "month_start l m = [0, 31, 59 + l, 90 + l, 120 + l, 151 + l, 181 + l, 212 + l, 243 + l,
     273 + l, 304 + l, 334 + l] ! m"

definition month_of_day :: "int \<Rightarrow> int \<Rightarrow> nat" where
  "month_of_day l d = (if d < 31 then 0 else if d < 59 + l then 1 else if d < 90 + l then 2
     else if d < 120 + l then 3 else if d < 151 + l then 4 else if d < 181 + l then 5
     else if d < 212 + l then 6 else if d < 243 + l then 7 else if d < 273 + l then 8
     else if d < 304 + l then 9 else if d < 334 + l then 10 else 11)"

definition MonthFromTime :: "int \<Rightarrow> nat" where
  "MonthFromTime t = month_of_day (InLeapYear t) (DayWithinYear t)"

definition DateFromTime :: "int \<Rightarrow> int" where
  "DateFromTime t = DayWithinYear t - month_start (InLeapYear t) (MonthFromTime t) + 1"

definition WeekDay :: "int \<Rightarrow> nat" where
  "WeekDay t = nat ((Day t + 4) mod 7)"

definition HourFromTime :: "int \<Rightarrow> nat" where
  "HourFromTime t = nat ((t div 3600000) mod 24)"

definition MinFromTime :: "int \<Rightarrow> nat" where
  "MinFromTime t = nat ((t div 60000) mod 60)"

definition SecFromTime :: "int \<Rightarrow> nat" where
  "SecFromTime t = nat ((t div 1000) mod 60)"

definition MakeTime :: "int \<Rightarrow> int \<Rightarrow> int \<Rightarrow> int \<Rightarrow> int" where
  "MakeTime hour minute sec ms = hour * 3600000 + minute * 60000 + sec * 1000 + ms"

text \<open>MakeDay for a month from 0 to 11.\<close>

definition MakeDay :: "int \<Rightarrow> nat \<Rightarrow> int \<Rightarrow> int" where
  "MakeDay year month date =
     DayFromYear year + month_start (if DaysInYear year = 366 then 1 else 0) month + date - 1"

definition MakeDate :: "int \<Rightarrow> int \<Rightarrow> int" where
  "MakeDate day time = day * 86400000 + time"

definition week_day_names :: "jsstring list" where
  "week_day_names = map lit [''Sun'', ''Mon'', ''Tue'', ''Wed'', ''Thu'', ''Fri'', ''Sat'']"

definition month_names :: "jsstring list" where
  "month_names = map lit [''Jan'', ''Feb'', ''Mar'', ''Apr'', ''May'', ''Jun'', ''Jul'', ''Aug'',
     ''Sep'', ''Oct'', ''Nov'', ''Dec'']"

text \<open>
  Date.prototype.toUTCString: \<open>Www, DD Mon YYYY HH:mm:ss GMT\<close>, the year of at least four
  digits after its sign. It has no field for the milliseconds.
\<close>

definition toUTCString :: "timevalue \<Rightarrow> jsstring" where
  "toUTCString tv = (case tv of
       None \<Rightarrow> lit ''Invalid Date''
     | Some t \<Rightarrow>
         week_day_names ! WeekDay t @ lit '', ''
         @ zero_padded (nat (DateFromTime t)) 2 @ lit '' ''
         @ month_names ! MonthFromTime t @ lit '' ''
         @ (if 0 \<le> YearFromTime t then [] else lit ''-'')
         @ zero_padded (nat \<bar>YearFromTime t\<bar>) 4 @ lit '' ''
         @ zero_padded (HourFromTime t) 2 @ lit '':''
         @ zero_padded (MinFromTime t) 2 @ lit '':''
         @ zero_padded (SecFromTime t) 2 @ lit '' GMT'')"

fun index_of :: "'a \<Rightarrow> 'a list \<Rightarrow> nat option" where
  "index_of x [] = None"
| "index_of x (y # ys) = (if x = y then Some 0 else map_option Suc (index_of x ys))"

text \<open>
  Reading the fields of a string in the format of \<open>toUTCString\<close>: the digits of the day
  after the weekday, the month name, the signed year, and the hours, minutes and seconds.
\<close>

definition utc_string_fields :: "jsstring \<Rightarrow> int option" where
  "utc_string_fields s = (let
       s1 = drop 5 s;
       date = digits_val (takeWhile is_digit s1);
       s2 = drop 1 (dropWhile is_digit s1);
       s3 = drop 4 s2;
       neg = (take 1 s3 = lit ''-'');
       s4 = (if neg then drop 1 s3 else s3);
       year = int (digits_val (takeWhile is_digit s4));
       s5 = drop 1 (dropWhile is_digit s4);
       hour = digits_val (takeWhile is_digit s5);
       s6 = drop 1 (dropWhile is_digit s5);
       minute = digits_val (takeWhile is_digit s6);
       s7 = drop 1 (dropWhile is_digit s6);
       sec = digits_val (takeWhile is_digit s7)
     in case index_of (take 3 s2) month_names of
          None \<Rightarrow> None
        | Some month \<Rightarrow>
            Some (MakeDate (MakeDay (if neg then - year else year) month (int date))
                    (MakeTime (int hour) (int minute) (int sec) 0)))"

text \<open>
  Date.parse. A string that \<open>toUTCString\<close> produces for a year from 100 on is read back
  as the time value it was produced from. On every other string the result is that of the
  implementation, here the parameter \<open>other\<close>: this includes the strings that
  \<open>toUTCString\<close> produces for the years before 100, where the parsers of the engines
  depart from the format (a year from 0 to 49 is read as a year of the 2000s, a year from
  50 to 99 as a year of the 1900s, and a negative year is not read).
\<close>

definition date_parse :: "(jsstring \<Rightarrow> timevalue) \<Rightarrow> jsstring \<Rightarrow> timevalue" where
  "date_parse other s = (case utc_string_fields s of
       None \<Rightarrow> other s
     | Some t \<Rightarrow>
         if \<bar>t\<bar> \<le> 8640000000000000 \<and> 100 \<le> YearFromTime t \<and> toUTCString (Some t) = s
         then Some t else other s)"

section \<open>Values\<close>

text \<open>
  The values the program handles. A Function is kept as the text its \<open>toString\<close> returns, a
  Date as its time value, a RegExp as the pattern text and the flags it was built from; an
  Array has its elements and an Object its own enumerable properties in order.
\<close>

datatype jsval =
    JUndefined
  | JNull
  | JBoolean bool
  | JNumber jsnum
  | JString jsstring
  | JBigInt int
  | JSymbol jsstring
  | JFunction jsstring
  | JDate timevalue
  | JRegExp jsstring jsstring
  | JArray "jsval list"
  | JObject "(jsstring \<times> jsval) list"

datatype jserror = SyntaxError | TypeError

text \<open>ToBoolean: what \<open>if ( value )\<close> tests.\<close>

fun ToBoolean :: "jsval \<Rightarrow> bool" where
  "ToBoolean JUndefined = False"
| "ToBoolean JNull = False"
| "ToBoolean (JBoolean b) = b"
| "ToBoolean (JNumber n) = (n \<noteq> NaN \<and> n \<noteq> NegZero \<and> n \<noteq> Fin 0)"
| "ToBoolean (JString s) = (s \<noteq> [])"
| "ToBoolean (JBigInt i) = (i \<noteq> 0)"
| "ToBoolean (JSymbol d) = True"
| "ToBoolean (JFunction f) = True"
| "ToBoolean (JDate tv) = True"
| "ToBoolean (JRegExp p f) = True"
| "ToBoolean (JArray xs) = True"
| "ToBoolean (JObject ps) = True"

section \<open>The platform\<close>

text \<open>
  The built-in functions the program calls are not part of it; they are taken with their
  initial values (no prototype is patched, no \<open>Symbol.toStringTag\<close> is set). Where the
  standard fixes what they return and the engines follow it, they are defined here; what
  the standard leaves to the implementation, what the engines do in their own way, or what
  depends on an object's own methods, is a field of this record, and every theorem holds
  for every such platform:
  \<^item> \<open>number_digits\<close>: the digits \<open>s\<close> and the position \<open>n\<close> of the decimal point that
    Number::toString chooses for a positive finite number that is not an integer below
    \<open>2 ^ 53\<close>;
  \<^item> \<open>date_parse_other\<close>: Date.parse on a string that \<open>toUTCString\<close> does not produce
    for a year from 100 on;
  \<^item> \<open>pattern_syntax\<close>: the syntax check of the RegExp constructor, beyond the pairing
    of escapes, brackets and parentheses;
  \<^item> \<open>escape_pattern\<close>: EscapeRegExpPattern on a pattern text that cannot stand in a
    regular expression literal as it is;
  \<^item> \<open>json_stringify\<close>: JSON.stringify, which returns a string or undefined, or throws;
  \<^item> \<open>json_parse\<close>: JSON.parse, which throws a SyntaxError on text that is not JSON;
  \<^item> \<open>object_to_string\<close>: ToString of an object, through its own \<open>toString\<close>.
\<close>

record platform =
  number_digits :: "rat \<Rightarrow> nat \<times> int"
  date_parse_other :: "jsstring \<Rightarrow> timevalue"
  pattern_syntax :: "jsstring \<Rightarrow> bool"
  escape_pattern :: "jsstring \<Rightarrow> jsstring"
  json_stringify :: "jsval \<Rightarrow> jserror + jsstring option"
  json_parse :: "jsstring \<Rightarrow> jserror + jsval"
  object_to_string :: "jsval \<Rightarrow> jserror + jsstring"

text \<open>
  Number::toString in radix 10 writes a positive finite \<open>x\<close> from integers \<open>s\<close> and \<open>n\<close>,
  where \<open>s\<close> has \<open>k\<close> digits, such that \<open>s \<times> 10 ^ (n - k)\<close> rounds to \<open>x\<close>, with \<open>k\<close> as
  small as possible. The pair \<open>(s, n)\<close> stands for the value \<open>s \<times> 10 ^ (n - k)\<close>.
\<close>

definition digits_value :: "nat \<times> int \<Rightarrow> rat" where
  "digits_value sn = (case sn of (s, n) \<Rightarrow> of_nat s * pow10 (n - int (length (show_nat s))))"

definition valid_digits :: "rat \<Rightarrow> nat \<times> int \<Rightarrow> bool" where
  "valid_digits x sn = (0 < fst sn \<and> number_for False (digits_value sn) = Fin x)"

text \<open>
  A binary64 value \<open>m \<times> 2 ^ u\<close> has a finite decimal expansion: \<open>m \<times> 2 ^ u\<close> itself when
  \<open>0 \<le> u\<close>, and \<open>m \<times> 5 ^ (- u) \<times> 10 ^ u\<close> otherwise.
\<close>

definition exact_digits :: "rat \<Rightarrow> nat \<times> int" where
  "exact_digits x = (let u = max (floor_log2 x - 52) (- 1074);
       m = nat (round_half_even (x / pow2 u));
       s = (if 0 \<le> u then m * 2 ^ nat u else m * 5 ^ nat (- u))
     in (s, int (length (show_nat s)) + (if 0 \<le> u then 0 else u)))"

text \<open>
  The digits that Number::toString writes: those the implementation chooses. Digits that
  do not round to \<open>x\<close> are not a choice the standard allows; the exact expansion stands
  in for them.
\<close>

definition chosen_digits :: "(rat \<Rightarrow> nat \<times> int) \<Rightarrow> rat \<Rightarrow> nat \<times> int" where
  "chosen_digits digits x = (if valid_digits x (digits x) then digits x else exact_digits x)"

text \<open>
  The layout of the digits: plain digits, with a decimal point, or with an exponent when
  \<open>n\<close> is below \<open>- 5\<close> or above 21.
\<close>

definition format_digits :: "nat \<times> int \<Rightarrow> jsstring" where
  "format_digits sn = (case sn of (s, n) \<Rightarrow>
     (let ds = show_nat s; k = int (length ds) in
      if - 5 \<le> n \<and> n \<le> 21 then
        (if k \<le> n then ds @ replicate (nat (n - k)) (cu CHR ''0'')
         else if 0 < n then take (nat n) ds @ lit ''.'' @ drop (nat n) ds
         else lit ''0.'' @ replicate (nat (- n)) (cu CHR ''0'') @ ds)
      else
        (let exponent = (if n < 0 then lit ''-'' else lit ''+'') @ show_nat (nat \<bar>n - 1\<bar>) in
         if k = 1 then ds @ lit ''e'' @ exponent
         else take 1 ds @ lit ''.'' @ drop 1 ds @ lit ''e'' @ exponent)))"

text \<open>
  Number::toString in radix 10. An integer below \<open>2 ^ 53\<close> is written with its own digits:
  no shorter decimal rounds to it.
\<close>

definition Number_toString :: "platform \<Rightarrow> jsnum \<Rightarrow> jsstring" where
  "Number_toString P n = (case n of
       NaN \<Rightarrow> lit ''NaN''
     | NegZero \<Rightarrow> lit ''0''
     | PosInf \<Rightarrow> lit ''Infinity''
     | NegInf \<Rightarrow> lit ''-Infinity''
     | Fin q \<Rightarrow>
         if q = 0 then lit ''0''
         else (if q < 0 then lit ''-'' else [])
           @ (if of_int \<lfloor>\<bar>q\<bar>\<rfloor> = \<bar>q\<bar> \<and> \<bar>q\<bar> < 2 ^ 53 then show_nat (nat \<lfloor>\<bar>q\<bar>\<rfloor>)
              else format_digits (chosen_digits (number_digits P) \<bar>q\<bar>)))"

text \<open>ToString, which \<open>setItem\<close> applies to the value it is given.\<close>

definition ToString :: "platform \<Rightarrow> jsval \<Rightarrow> jserror + jsstring" where
  "ToString P v = (case v of
       JUndefined \<Rightarrow> Inr (lit ''undefined'')
     | JNull \<Rightarrow> Inr (lit ''null'')
     | JBoolean b \<Rightarrow> Inr (if b then lit ''true'' else lit ''false'')
     | JNumber n \<Rightarrow> Inr (Number_toString P n)
     | JString s \<Rightarrow> Inr s
     | JBigInt i \<Rightarrow> Inr ((if i < 0 then lit ''-'' else []) @ show_nat (nat \<bar>i\<bar>))
     | JSymbol d \<Rightarrow> Inl TypeError
     | _ \<Rightarrow> object_to_string P v)"

text \<open>\<open>new Date(source)\<close> for a string: the parsed time value, clipped.\<close>

definition Date_new :: "platform \<Rightarrow> jsstring \<Rightarrow> jsval" where
  "Date_new P source = JDate (TimeClip (date_parse (date_parse_other P) source))"

text \<open>
  A pattern cannot be valid unless every backslash escapes a character, every class is
  closed and the parentheses outside classes pair up. The arguments are the number of open
  groups and whether a class is open.
\<close>

fun pattern_scan :: "nat \<Rightarrow> bool \<Rightarrow> jsstring \<Rightarrow> bool" where
  "pattern_scan depth in_class [] = (depth = 0 \<and> \<not> in_class)"
| "pattern_scan depth in_class (c # cs) =
     (if c = cu CHR 0x5C then (case cs of [] \<Rightarrow> False | d # ds \<Rightarrow> pattern_scan depth in_class ds)
      else if in_class then pattern_scan depth (c \<noteq> cu CHR '']'') cs
      else if c = cu CHR ''['' then pattern_scan depth True cs
      else if c = cu CHR ''('' then pattern_scan (Suc depth) False cs
      else if c = cu CHR '')'' then (0 < depth \<and> pattern_scan (depth - 1) False cs)
      else pattern_scan depth False cs)"

text \<open>\<open>new RegExp(source)\<close>: a SyntaxError on an invalid pattern, else a RegExp with no flags.\<close>

definition valid_pattern :: "platform \<Rightarrow> jsstring \<Rightarrow> bool" where
  "valid_pattern P source = (pattern_scan 0 False source \<and> pattern_syntax P source)"

definition RegExp_new :: "platform \<Rightarrow> jsstring \<Rightarrow> jserror + jsval" where
  "RegExp_new P source =
     (if valid_pattern P source then Inr (JRegExp source []) else Inl SyntaxError)"

text \<open>
  A text that can stand between the slashes of a regular expression literal as it is: it
  is not empty, it has no line terminator, every backslash escapes a character, and every
  slash is escaped or in a class. The argument of the scan is whether a class is open.
\<close>

definition is_line_terminator :: "jschar \<Rightarrow> bool" where
  "is_line_terminator c = (unat c \<in> {10, 13, 8232, 8233})"

fun literal_scan :: "bool \<Rightarrow> jsstring \<Rightarrow> bool" where
  "literal_scan in_class [] = True"
| "literal_scan in_class (c # cs) =
     (if is_line_terminator c then False
      else if c = cu CHR 0x5C then
        (case cs of [] \<Rightarrow> False | d # ds \<Rightarrow> \<not> is_line_terminator d \<and> literal_scan in_class ds)
      else if in_class then literal_scan (c \<noteq> cu CHR '']'') cs
      else if c = cu CHR ''['' then literal_scan True cs
      else c \<noteq> cu CHR ''/'' \<and> literal_scan False cs)"

definition literal_text :: "jsstring \<Rightarrow> bool" where
  "literal_text s = (s \<noteq> [] \<and> literal_scan False s)"

text \<open>
  The \<open>source\<close> getter of a RegExp, for the pattern text the RegExp was built from. Its
  result can stand between the slashes of a literal. The engines return a pattern text
  that already can as it is; any other they escape (a backslash is put before the slash of
  the pattern \<open>/\<close>), each in its way, and \<open>(?:)\<close> stands for the empty pattern.
\<close>

definition RegExp_source :: "platform \<Rightarrow> jsstring \<Rightarrow> jsstring" where
  "RegExp_source P pattern =
     (if literal_text pattern then pattern
      else if literal_text (escape_pattern P pattern) then escape_pattern P pattern
      else lit ''(?:)'')"

text \<open>JSON.parse; the empty text is not JSON.\<close>

definition JSON_parse :: "platform \<Rightarrow> jsstring \<Rightarrow> jserror + jsval" where
  "JSON_parse P source = (if source = [] then Inl SyntaxError else json_parse P source)"

section \<open>The backend: Web Storage\<close>

text \<open>
  \<open>window.sessionStorage\<close> and \<open>window.localStorage\<close> map keys to strings. \<open>getItem\<close>
  returns the string stored for the key, or null when there is none; \<open>setItem\<close> stores
  the string its argument converts to. The quota is not modelled: \<open>setItem\<close> never runs
  out of space.
\<close>

type_synonym storage = "jsstring \<rightharpoonup> jsstring"

definition getItem :: "storage \<Rightarrow> jsstring \<Rightarrow> jsstring option" where
  "getItem st key = st key"

definition setItem :: "platform \<Rightarrow> storage \<Rightarrow> jsstring \<Rightarrow> jsval \<Rightarrow> jserror + storage" where
  "setItem P st key v = (case ToString P v of Inl e \<Rightarrow> Inl e | Inr s \<Rightarrow> Inr (st(key \<mapsto> s)))"

definition removeItem :: "storage \<Rightarrow> jsstring \<Rightarrow> storage" where
  "removeItem st key = st(key := None)"

text \<open>The result of \<open>getItem\<close> as a value: null or a string.\<close>

definition item_value :: "jsstring option \<Rightarrow> jsval" where
  "item_value r = (case r of None \<Rightarrow> JNull | Some s \<Rightarrow> JString s)"

section \<open>The class Storage\<close>

text \<open>
  The private field \<open>#storage\<close> is the backend; a method takes its content and, when it
  writes, returns the new content. A method that can throw returns \<open>Inl\<close> the error.
\<close>

text \<open>\<open>has(key)\<close>: \<open>this.#storage.getItem( key ) !== undefined\<close>.\<close>

definition has :: "storage \<Rightarrow> jsstring \<Rightarrow> bool" where
  "has st key = (item_value (getItem st key) \<noteq> JUndefined)"

text \<open>\<open>remove(key)\<close>.\<close>

definition remove_key :: "storage \<Rightarrow> jsstring \<Rightarrow> storage" where
  "remove_key st key = removeItem st key"

text \<open>
  \<open>decode\<close>, the arrow function of \<open>get\<close>. On null, \<open>value?.length\<close> is undefined and
  \<open>( value?.length || 0 ) < 10\<close> holds. \<open>substring( 9 )\<close> is \<open>drop 9\<close> and
  \<open>substring( 0, 8 )\<close> is \<open>take 8\<close>.
\<close>

definition decode :: "platform \<Rightarrow> jsstring option \<Rightarrow> jserror + jsval" where
  "decode P item = (case item of
       None \<Rightarrow> Inr JUndefined
     | Some v \<Rightarrow>
         if length v < 10 then Inr JUndefined
         else (let source = drop 9 v; tag = take 8 v in
           if tag = lit ''__date__'' then Inr (Date_new P source)
           else if tag = lit ''__expr__'' then RegExp_new P source
           else if tag = lit ''__numb__'' then Inr (JNumber (string_to_number source))
           else if tag = lit ''__bool__'' then Inr (JBoolean (source = lit ''1''))
           else if tag = lit ''__strn__'' then Inr (JString source)
           else if tag = lit ''__objt__'' then JSON_parse P source
           else Inr (JString v)))"

text \<open>\<open>get(key, default_value)\<close>.\<close>

definition get :: "platform \<Rightarrow> storage \<Rightarrow> jsstring \<Rightarrow> jsval \<Rightarrow> jserror + jsval" where
  "get P st key default_value = (case decode P (getItem st key) of
       Inl e \<Rightarrow> Inl e
     | Inr v \<Rightarrow> Inr (if ToBoolean v then v else default_value))"

text \<open>
  \<open>encode\<close>, the arrow function of \<open>set\<close>: the tests in the order of the source. The last
  four cases are \<open>return value\<close>: the value is neither a Date, a RegExp, a number, a
  boolean, a string, a function nor an object.
\<close>

fun encode :: "platform \<Rightarrow> jsval \<Rightarrow> jserror + jsval" where
  "encode P (JDate tv) = Inr (JString (lit ''__date__|'' @ toUTCString tv))"
| "encode P (JRegExp pattern flags) = Inr (JString (lit ''__expr__|'' @ RegExp_source P pattern))"
| "encode P (JNumber n) = Inr (JString (lit ''__numb__|'' @ Number_toString P n))"
| "encode P (JBoolean b) = Inr (JString (lit ''__bool__|'' @ (if b then lit ''1'' else lit ''0'')))"
| "encode P (JString s) = Inr (JString (lit ''__strn__|'' @ s))"
| "encode P (JFunction f) = Inr (JString (lit ''__strn__|'' @ f))"
| "encode P (JArray xs) = (case json_stringify P (JArray xs) of
       Inl e \<Rightarrow> Inl e
     | Inr r \<Rightarrow> Inr (JString (lit ''__objt__|'' @ (case r of None \<Rightarrow> lit ''undefined'' | Some s \<Rightarrow> s))))"
| "encode P (JObject ps) = (case json_stringify P (JObject ps) of
       Inl e \<Rightarrow> Inl e
     | Inr r \<Rightarrow> Inr (JString (lit ''__objt__|'' @ (case r of None \<Rightarrow> lit ''undefined'' | Some s \<Rightarrow> s))))"
| "encode P JUndefined = Inr JUndefined"
| "encode P JNull = Inr JNull"
| "encode P (JBigInt i) = Inr (JBigInt i)"
| "encode P (JSymbol d) = Inr (JSymbol d)"

text \<open>\<open>set(key, value)\<close>.\<close>

definition set_key :: "platform \<Rightarrow> storage \<Rightarrow> jsstring \<Rightarrow> jsval \<Rightarrow> jserror + storage" where
  "set_key P st key v = (case encode P v of Inl e \<Rightarrow> Inl e | Inr s \<Rightarrow> setItem P st key s)"

section \<open>Notions of the specification\<close>

text \<open>The six tags of an encoded record.\<close>

definition known_tags :: "jsstring list" where
  "known_tags = map lit [''__date__'', ''__expr__'', ''__numb__'', ''__bool__'', ''__strn__'',
     ''__objt__'']"




text \<open>The source text of a RegExp: what its \<open>source\<close> getter returns.\<close>

definition source_text :: "platform \<Rightarrow> jsval \<Rightarrow> jsstring" where
  "source_text P v = (case v of JRegExp pattern flags \<Rightarrow> RegExp_source P pattern | _ \<Rightarrow> [])"

text \<open>\<open>set(key, v)\<close> followed by \<open>get(key, default_value)\<close>.\<close>

definition set_then_get ::
    "platform \<Rightarrow> storage \<Rightarrow> jsstring \<Rightarrow> jsval \<Rightarrow> jsval \<Rightarrow> jserror + jsval" where
  "set_then_get P st key v default_value = (case set_key P st key v of
       Inl e \<Rightarrow> Inl e
     | Inr st' \<Rightarrow> get P st' key default_value)"

text \<open>
  A history of calls that write: a call of \<open>set\<close> that throws leaves the backend as it
  was.
\<close>

datatype call = Set jsstring jsval | Remove jsstring

fun run :: "platform \<Rightarrow> storage \<Rightarrow> call list \<Rightarrow> storage" where
  "run P st [] = st"
| "run P st (Set key v # cs) =
     run P (case set_key P st key v of Inl e \<Rightarrow> st | Inr st' \<Rightarrow> st') cs"
| "run P st (Remove key # cs) = run P (remove_key st key) cs"

fun set_keys :: "call list \<Rightarrow> jsstring list" where
  "set_keys [] = []"
| "set_keys (Set key v # cs) = key # set_keys cs"
| "set_keys (Remove key # cs) = set_keys cs"

text \<open>
  A platform to evaluate examples on. It answers what the examples ask as the engines do:
  \<open>1.5\<close> is written \<open>1.5\<close>, the pattern \<open>/\<close> has its slash escaped in the source text, the object
  \<open>{a: 1}\<close> is the JSON text \<open>{"a":1}\<close>, and \<open>Mon, 01 Jan 0001 00:00:00 GMT\<close> is read as
  the first of January 2001; no other text than those that \<open>date_parse\<close> fixes is taken
  for a date, and no other text for JSON.
\<close>

definition example_object :: jsval where
  "example_object = JObject [(lit ''a'', JNumber (Fin 1))]"

definition example_json :: jsstring where
  "example_json = lit (CHR ''{'' # CHR 0x22 # CHR ''a'' # CHR 0x22 # '':1}'')"

definition example_platform :: platform where
  "example_platform = \<lparr>
     number_digits = (\<lambda>q. if q = 3 / 2 then (15, 1) else (0, 0)),
     date_parse_other = (\<lambda>s. if s = lit ''Mon, 01 Jan 0001 00:00:00 GMT''
                             then Some 978307200000 else None),
     pattern_syntax = (\<lambda>s. True),
     escape_pattern = (\<lambda>s. if s = lit ''/'' then lit [CHR 0x5C, CHR ''/''] else s),
     json_stringify = (\<lambda>v. if v = example_object then Inr (Some example_json) else Inr None),
     json_parse = (\<lambda>s. if s = example_json then Inr example_object else Inl SyntaxError),
     object_to_string = (\<lambda>v. Inr (lit ''[object Object]'')) \<rparr>"

section \<open>Strings and tags\<close>

lemma of_char_less_256: "(of_char c :: nat) < 256"
proof -
  have "(of_char c :: nat) = of_char c mod 256" by simp
  also have "\<dots> < 256" by (rule mod_less_divisor) simp
  finally show ?thesis .
qed

lemma unat_cu: "unat (cu c) = of_char c"
proof -
  have "(of_char c :: nat) < 65536" using of_char_less_256 [of c] by linarith
  then show ?thesis unfolding cu_def by (simp add: unat_of_nat)
qed

lemma cu_eq_iff: "cu a = cu b \<longleftrightarrow> a = b"
proof
  assume "cu a = cu b"
  then have "unat (cu a) = unat (cu b)" by simp
  then show "a = b" by (simp add: unat_cu)
qed simp

lemma length_lit: "length (lit s) = length s"
  by (simp add: lit_def)

lemma lit_eq_iff: "lit s = lit t \<longleftrightarrow> s = t"
  unfolding lit_def by (simp add: inj_map_eq_map inj_on_def cu_eq_iff)

lemma lit_Nil: "lit [] = []" by (simp add: lit_def)

lemma lit_Cons: "lit (c # s) = cu c # lit s" by (simp add: lit_def)

lemma lit_append: "lit (s @ t) = lit s @ lit t" by (simp add: lit_def)

lemma lit_eq_Nil_iff: "lit s = [] \<longleftrightarrow> s = []" by (simp add: lit_def)

lemma has_always: "has st key"
  by (simp add: has_def item_value_def split: option.split)

lemma decode_None: "decode P None = Inr JUndefined"
  by (simp add: decode_def)

lemma decode_short: "length raw < 10 \<Longrightarrow> decode P (Some raw) = Inr JUndefined"
  by (simp add: decode_def)

lemma decode_date:
  "10 \<le> length raw \<Longrightarrow> take 8 raw = lit ''__date__'' \<Longrightarrow>
   decode P (Some raw) = Inr (Date_new P (drop 9 raw))"
  by (simp add: decode_def)

lemma decode_expr:
  "10 \<le> length raw \<Longrightarrow> take 8 raw = lit ''__expr__'' \<Longrightarrow>
   decode P (Some raw) = RegExp_new P (drop 9 raw)"
  by (simp add: decode_def lit_eq_iff)


lemma decode_bool:
  "10 \<le> length raw \<Longrightarrow> take 8 raw = lit ''__bool__'' \<Longrightarrow>
   decode P (Some raw) = Inr (JBoolean (drop 9 raw = lit ''1''))"
  by (simp add: decode_def lit_eq_iff)

lemma decode_strn:
  "10 \<le> length raw \<Longrightarrow> take 8 raw = lit ''__strn__'' \<Longrightarrow>
   decode P (Some raw) = Inr (JString (drop 9 raw))"
  by (simp add: decode_def lit_eq_iff)

lemma decode_objt:
  "10 \<le> length raw \<Longrightarrow> take 8 raw = lit ''__objt__'' \<Longrightarrow>
   decode P (Some raw) = JSON_parse P (drop 9 raw)"
  by (simp add: decode_def lit_eq_iff)

lemma decode_unknown:
  "10 \<le> length raw \<Longrightarrow> take 8 raw \<notin> set known_tags \<Longrightarrow>
   decode P (Some raw) = Inr (JString raw)"
  by (simp add: decode_def known_tags_def)

text \<open>Decoding what \<open>encode\<close> writes: a tag, the separator and a payload.\<close>

lemma decode_enc_bool:
  "decode P (Some (lit ''__bool__|'' @ x)) = (if x = [] then Inr JUndefined else Inr (JBoolean (x = lit ''1'')))"
  by (cases x) (simp_all add: decode_def lit_def cu_eq_iff)


lemma decode_enc_expr:
  "decode P (Some (lit ''__expr__|'' @ x)) = (if x = [] then Inr JUndefined else RegExp_new P x)"
  by (cases x) (simp_all add: decode_def lit_def cu_eq_iff)

lemma decode_enc_numb:
  "decode P (Some (lit ''__numb__|'' @ x)) = (if x = [] then Inr JUndefined else Inr (JNumber (string_to_number x)))"
  by (cases x) (simp_all add: decode_def lit_def cu_eq_iff)



lemma get_absent: "st key = None \<Longrightarrow> get P st key D = Inr D"
  by (simp add: get_def getItem_def decode_None)

lemma get_after_remove: "get P (remove_key st key) key D = Inr D"
  by (simp add: get_absent remove_key_def removeItem_def)

lemma run_absent:
  "st key = None \<Longrightarrow> key \<notin> set (set_keys cs) \<Longrightarrow> run P st cs key = None"
proof (induction cs arbitrary: st)
  case Nil
  then show ?case by simp
next
  case (Cons c cs)
  show ?case
  proof (cases c)
    case (Set k v)
    with Cons.prems have ne: "k \<noteq> key" and rest: "key \<notin> set (set_keys cs)" by auto
    have "(case set_key P st k v of Inl e \<Rightarrow> st | Inr st' \<Rightarrow> st') key = None"
      using Cons.prems(1) ne
      by (auto simp: set_key_def setItem_def split: sum.splits)
    then show ?thesis using Set rest by (simp add: Cons.IH)
  next
    case (Remove k)
    with Cons.prems have rest: "key \<notin> set (set_keys cs)" by auto
    have "remove_key st k key = None"
      using Cons.prems(1) by (simp add: remove_key_def removeItem_def)
    then show ?thesis using Remove rest by (simp add: Cons.IH)
  qed
qed

text \<open>Unfolding concrete strings and numeric literals.\<close>

lemmas string_eval = lit_def cu_def

lemmas number_eval = string_to_number_def trim_def is_white_space_def non_decimal_literal_def
  str_decimal_literal_def unsigned_decimal_def exponent_part_def signed_integer_def
  all_digits_def is_digit_def digits_val_def digit_val_def number_for_def
  round_binary64_def floor_log2_def pow2_def pow10_def round_half_even_def radix_digit_def

section \<open>Existence\<close>

text \<open>
  C1 (existence law), where the code departs from it: after \<open>remove('s')\<close> the backend holds
  no slot for the key, and \<open>has('s')\<close> is still true.
\<close>

theorem C1_has_true_after_remove:
  "has (remove_key (Map.empty(lit ''s'' \<mapsto> lit ''__strn__|hello'')) (lit ''s'')) (lit ''s'') = True
   \<and> getItem (remove_key (Map.empty(lit ''s'' \<mapsto> lit ''__strn__|hello'')) (lit ''s'')) (lit ''s'') = None"
  by (simp add: has_def item_value_def getItem_def remove_key_def removeItem_def)

section \<open>Absence\<close>

text \<open>
  C6 (absence law): \<open>get(key, D)\<close> returns \<open>D\<close> when the backend holds no slot for the key,
  in particular after any history of calls from the empty backend in which no \<open>set\<close> was on
  that key, and after \<open>remove(key)\<close>, whatever was set before.
\<close>

theorem C6_absence:
  "(st key = None \<longrightarrow> get P st key D = Inr D)
   \<and> (key \<notin> set (set_keys cs) \<longrightarrow> get P (run P Map.empty cs) key D = Inr D)
   \<and> get P (remove_key st key) key D = Inr D
   \<and> (set_key P st key v = Inr st' \<longrightarrow> get P (remove_key st' key) key D = Inr D)"
  by (simp add: get_absent get_after_remove run_absent)

theorem C6_witness:
  "get example_platform Map.empty (lit ''k'') (JNumber (Fin 7)) = Inr (JNumber (Fin 7))
   \<and> get example_platform (run example_platform Map.empty
        [Set (lit ''other'') (JBoolean True), Remove (lit ''k'')]) (lit ''k'') JNull = Inr JNull
   \<and> set_key example_platform Map.empty (lit ''k'') (JString (lit ''hello''))
        = Inr (Map.empty(lit ''k'' \<mapsto> lit ''__strn__|hello''))
   \<and> get example_platform (remove_key (Map.empty(lit ''k'' \<mapsto> lit ''__strn__|hello'')) (lit ''k''))
        (lit ''k'') JNull = Inr JNull"
  using C6_absence [of Map.empty "lit ''k''" example_platform "JNumber (Fin 7)"
      "[Set (lit ''other'') (JBoolean True), Remove (lit ''k'')]" "JString (lit ''hello'')"
      "Map.empty(lit ''k'' \<mapsto> lit ''__strn__|hello'')"]
    C6_absence [of "Map.empty(lit ''k'' \<mapsto> lit ''__strn__|hello'')" "lit ''k''" example_platform JNull
      "[Set (lit ''other'') (JBoolean True), Remove (lit ''k'')]" "JString (lit ''hello'')"
      "Map.empty(lit ''k'' \<mapsto> lit ''__strn__|hello'')"]
  by (simp add: set_key_def setItem_def ToString_def lit_eq_iff lit_append [symmetric])

section \<open>Unknown tags and short strings\<close>

text \<open>
  C5 (tag robustness): on a stored string of fewer than 10 code units \<open>get\<close> returns the
  default; on one of at least 10 whose first 8 are no known tag it returns the stored
  string itself.
\<close>

theorem C5_tag_robustness:
  "st key = Some raw \<Longrightarrow>
   (length raw < 10 \<longrightarrow> get P st key D = Inr D)
   \<and> (10 \<le> length raw \<and> take 8 raw \<notin> set known_tags \<longrightarrow> get P st key D = Inr (JString raw))"
  by (auto simp: get_def getItem_def decode_short decode_unknown)

theorem C5_witness:
  "get example_platform (Map.empty(lit ''k'' \<mapsto> lit ''__numb__'')) (lit ''k'') JNull = Inr JNull
   \<and> get example_platform (Map.empty(lit ''k'' \<mapsto> lit ''plain text!'')) (lit ''k'') JNull
       = Inr (JString (lit ''plain text!''))"
  using C5_tag_robustness [of "Map.empty(lit ''k'' \<mapsto> lit ''__numb__'')" "lit ''k''" "lit ''__numb__''"
      example_platform JNull]
    C5_tag_robustness [of "Map.empty(lit ''k'' \<mapsto> lit ''plain text!'')" "lit ''k''" "lit ''plain text!''"
      example_platform JNull]
  by (simp add: known_tags_def string_eval)

section \<open>What get returns\<close>

text \<open>
  C8: whatever the backend holds, a value that \<open>get(key, D)\<close> returns is truthy or is \<open>D\<close>.
\<close>

theorem C8_truthy_or_default:
  "get P st key D = Inr v \<Longrightarrow> ToBoolean v \<or> v = D"
  by (auto simp: get_def split: sum.splits if_splits)

theorem C8_witness:
  "get example_platform (Map.empty(lit ''n'' \<mapsto> lit ''__numb__|0'')) (lit ''n'') (JNumber (Fin (- 1)))
     = Inr (JNumber (Fin (- 1)))
   \<and> (ToBoolean (JNumber (Fin (- 1))) \<or> JNumber (Fin (- 1)) = JNumber (Fin (- 1)))"
proof -
  have g: "get example_platform (Map.empty(lit ''n'' \<mapsto> lit ''__numb__|0'')) (lit ''n'') (JNumber (Fin (- 1)))
     = Inr (JNumber (Fin (- 1)))"
    by (simp add: get_def getItem_def decode_def number_eval string_eval)
  show ?thesis using g C8_truthy_or_default [OF g] by simp
qed

section \<open>Numbers that are not numbers\<close>

lemma string_to_number_zero: "string_to_number (lit ''0'') = Fin 0"
  by (simp add: number_eval string_eval)

lemma string_to_number_NaN: "string_to_number (lit ''NaN'') = NaN"
  by (simp add: number_eval string_eval)


lemma get_stored:
  "st key = Some raw \<Longrightarrow> decode P (Some raw) = Inr v \<Longrightarrow>
   get P st key D = Inr (if ToBoolean v then v else D)"
  by (simp add: get_def getItem_def)

lemma get_stored_error:
  "st key = Some raw \<Longrightarrow> decode P (Some raw) = Inl e \<Longrightarrow> get P st key D = Inl e"
  by (simp add: get_def getItem_def)

lemma get_short: "st key = Some raw \<Longrightarrow> length raw < 10 \<Longrightarrow> get P st key D = Inr D"
  by (simp add: get_stored [OF _ decode_short])



section \<open>Masking\<close>

lemma set_key_string:
  "encode P v = Inr (JString s) \<Longrightarrow> set_key P st key v = Inr (st(key \<mapsto> s))"
  by (simp add: set_key_def setItem_def ToString_def)

lemma set_then_get_string:
  "encode P v = Inr (JString s) \<Longrightarrow> decode P (Some s) = Inr w \<Longrightarrow>
   set_then_get P st key v D = Inr (if ToBoolean w then w else D)"
  by (simp add: set_then_get_def set_key_string get_stored)

lemma set_then_get_raw:
  "encode P v = Inr v \<Longrightarrow> ToString P v = Inr s \<Longrightarrow> length s < 10 \<Longrightarrow>
   set_then_get P st key v D = Inr D"
  by (simp add: set_then_get_def set_key_def setItem_def get_short)

lemma mask_undefined: "set_then_get P st key JUndefined D = Inr D"
  by (rule set_then_get_raw [where s = "lit ''undefined''"]) (simp_all add: ToString_def length_lit)

lemma mask_null: "set_then_get P st key JNull D = Inr D"
  by (rule set_then_get_raw [where s = "lit ''null''"]) (simp_all add: ToString_def length_lit)

lemma mask_bigint: "set_then_get P st key (JBigInt 0) D = Inr D"
  by (rule set_then_get_raw [where s = "show_nat 0"]) (simp_all add: ToString_def)

lemma mask_false: "set_then_get P st key (JBoolean False) D = Inr D"
proof -
  have "decode P (Some (lit ''__bool__|'' @ lit ''0'')) = Inr (JBoolean False)"
    by (simp add: decode_enc_bool lit_eq_iff lit_eq_Nil_iff)
  with set_then_get_string [of P "JBoolean False" "lit ''__bool__|'' @ lit ''0''" "JBoolean False" st key D]
  show ?thesis by simp
qed

lemma mask_empty_string: "set_then_get P st key (JString []) D = Inr D"
proof -
  have "decode P (Some (lit ''__strn__|'')) = Inr JUndefined"
    by (simp add: decode_short length_lit)
  with set_then_get_string [of P "JString []" "lit ''__strn__|''" JUndefined st key D]
  show ?thesis by simp
qed

lemma mask_number:
  assumes "n = NaN \<or> n = NegZero \<or> n = Fin 0"
  shows "set_then_get P st key (JNumber n) D = Inr D"
proof -
  obtain s where s: "Number_toString P n = lit s" "s = ''NaN'' \<or> s = ''0''"
    using assms by (auto simp: Number_toString_def)
  have "decode P (Some (lit ''__numb__|'' @ lit s)) = Inr (JNumber (string_to_number (lit s)))"
    using s(2) by (auto simp: decode_enc_numb lit_eq_Nil_iff)
  moreover have "\<not> ToBoolean (JNumber (string_to_number (lit s)))"
    using s(2) by (auto simp: string_to_number_zero string_to_number_NaN)
  ultimately show ?thesis
    using set_then_get_string [of P "JNumber n" "lit ''__numb__|'' @ lit s"
        "JNumber (string_to_number (lit s))" st key D] s(1)
    by auto
qed

text \<open>
  C3 (masking law): after \<open>set(key, f)\<close> with a falsy \<open>f\<close> (undefined, null, false, NaN,
  0, -0, 0n or the empty string), \<open>get(key, D)\<close> returns \<open>D\<close>; and a stored string that
  decodes to a falsy value is never observed: \<open>get\<close> returns \<open>D\<close> for it.
\<close>

theorem C3_masking:
  "(\<not> ToBoolean f \<longrightarrow> set_then_get P st key f D = Inr D)
   \<and> (decode P (Some raw) = Inr v \<and> \<not> ToBoolean v \<longrightarrow> get P (st(key \<mapsto> raw)) key D = Inr D)"
proof -
  have "set_then_get P st key f D = Inr D" if "\<not> ToBoolean f"
    using that
    by (cases f) (simp_all add: mask_undefined mask_null mask_false mask_number
        mask_empty_string mask_bigint)
  moreover have "get P (st(key \<mapsto> raw)) key D = Inr D"
    if "decode P (Some raw) = Inr v" "\<not> ToBoolean v"
    using get_stored [of "st(key \<mapsto> raw)" key raw P v D] that by simp
  ultimately show ?thesis by blast
qed

theorem C3_witness:
  "\<not> ToBoolean (JNumber (Fin 0))
   \<and> set_then_get example_platform Map.empty (lit ''n'') (JNumber (Fin 0)) (JNumber (Fin (- 1)))
       = Inr (JNumber (Fin (- 1)))
   \<and> decode example_platform (Some (lit ''__bool__|0'')) = Inr (JBoolean False)
   \<and> get example_platform (Map.empty(lit ''b'' \<mapsto> lit ''__bool__|0'')) (lit ''b'') (JBoolean True)
       = Inr (JBoolean True)"
proof -
  have d: "decode example_platform (Some (lit ''__bool__|0'')) = Inr (JBoolean False)"
    by (simp add: decode_def string_eval)
  show ?thesis
    using d C3_masking [of "JNumber (Fin 0)" example_platform Map.empty "lit ''n''"
        "JNumber (Fin (- 1))" "lit ''__bool__|0''" "JBoolean False"]
      C3_masking [of "JNumber (Fin 0)" example_platform Map.empty "lit ''b''"
        "JBoolean True" "lit ''__bool__|0''" "JBoolean False"]
    by simp
qed

section \<open>Failures\<close>

lemma get_error_iff:
  "get P st key D = Inl e \<longleftrightarrow> decode P (st key) = Inl e"
  by (simp add: get_def getItem_def split: sum.splits)

lemma decode_error_iff:
  "decode P (Some raw) = Inl e \<longleftrightarrow>
     10 \<le> length raw
     \<and> (take 8 raw = lit ''__objt__'' \<and> JSON_parse P (drop 9 raw) = Inl e
        \<or> take 8 raw = lit ''__expr__'' \<and> RegExp_new P (drop 9 raw) = Inl e)"
  by (auto simp: decode_def Let_def lit_eq_iff)

text \<open>
  C4 (failure semantics), as the code has it: \<open>get\<close> throws exactly when the stored string
  has at least 10 code units and either the tag \<open>__objt__\<close> with a payload that JSON.parse
  rejects, or the tag \<open>__expr__\<close> with a payload that the RegExp constructor rejects; the
  error is the one the built-in raised. On every other backend content it returns.
\<close>

theorem C4_failure_semantics:
  "get P st key D = Inl e \<longleftrightarrow>
     (\<exists>raw. st key = Some raw \<and> 10 \<le> length raw
        \<and> (take 8 raw = lit ''__objt__'' \<and> JSON_parse P (drop 9 raw) = Inl e
           \<or> take 8 raw = lit ''__expr__'' \<and> RegExp_new P (drop 9 raw) = Inl e))"
proof (cases "st key")
  case None
  then show ?thesis by (simp add: get_error_iff decode_None)
next
  case (Some raw)
  then show ?thesis by (simp add: get_error_iff decode_error_iff)
qed

theorem C4_witness:
  "get example_platform (Map.empty(lit ''k'' \<mapsto> lit ''__objt__|{a'')) (lit ''k'') JNull = Inl SyntaxError"
proof -
  have "JSON_parse example_platform (drop 9 (lit ''__objt__|{a'')) = Inl SyntaxError"
    by (simp add: JSON_parse_def example_platform_def example_json_def string_eval)
  moreover have "take 8 (lit ''__objt__|{a'') = lit ''__objt__''" by (simp add: lit_def)
  ultimately show ?thesis
    using C4_failure_semantics [of example_platform "Map.empty(lit ''k'' \<mapsto> lit ''__objt__|{a'')"
        "lit ''k''" JNull SyntaxError]
    by (simp add: length_lit)
qed

theorem C4_counterexample:
  "get example_platform (Map.empty(lit ''k'' \<mapsto> lit ''__expr__|('')) (lit ''k'') JNull = Inl SyntaxError
   \<and> take 8 (lit ''__expr__|('') \<noteq> lit ''__objt__''"
  by (simp add: get_def getItem_def decode_def RegExp_new_def valid_pattern_def string_eval)

section \<open>Dates that are not dates\<close>

text \<open>
  C9, as the code has it: on a stored string of at least 10 code units with the tag
  \<open>__date__\<close> whose payload Date.parse does not read, \<open>get\<close> returns an Invalid Date, which is
  truthy, and not the default.
\<close>

theorem C9_malformed_date_not_masked:
  "st key = Some raw \<Longrightarrow> 10 \<le> length raw \<Longrightarrow> take 8 raw = lit ''__date__'' \<Longrightarrow>
   date_parse (date_parse_other P) (drop 9 raw) = None \<Longrightarrow>
   get P st key D = Inr (JDate None) \<and> ToBoolean (JDate None)"
proof -
  assume a: "st key = Some raw" "10 \<le> length raw" "take 8 raw = lit ''__date__''"
    "date_parse (date_parse_other P) (drop 9 raw) = None"
  have "decode P (Some raw) = Inr (JDate None)"
    using a(2-4) by (simp add: decode_date Date_new_def TimeClip_def)
  with get_stored [of st key raw P "JDate None" D] a(1) show ?thesis by simp
qed

lemmas date_eval = date_parse_def utc_string_fields_def month_names_def is_digit_def
  digits_val_def digit_val_def

theorem C9_witness:
  "10 \<le> length (lit ''__date__|not a date'')
   \<and> take 8 (lit ''__date__|not a date'') = lit ''__date__''
   \<and> date_parse (date_parse_other example_platform) (drop 9 (lit ''__date__|not a date'')) = None
   \<and> get example_platform (Map.empty(lit ''d'' \<mapsto> lit ''__date__|not a date'')) (lit ''d'') JNull
       = Inr (JDate None)"
proof -
  have l: "10 \<le> length (lit ''__date__|not a date'')" by (simp add: length_lit)
  have t: "take 8 (lit ''__date__|not a date'') = lit ''__date__''" by (simp add: lit_def)
  have d: "date_parse (date_parse_other example_platform) (drop 9 (lit ''__date__|not a date'')) = None"
    by (simp add: date_eval example_platform_def string_eval)
  show ?thesis
    using l t d C9_malformed_date_not_masked [of "Map.empty(lit ''d'' \<mapsto> lit ''__date__|not a date'')"
        "lit ''d''" "lit ''__date__|not a date''" example_platform JNull]
    by simp
qed

theorem C9_counterexample:
  "take 8 (lit ''__date__|'') = lit ''__date__''
   \<and> date_parse (date_parse_other example_platform) (drop 9 (lit ''__date__|'')) = None
   \<and> get example_platform (Map.empty(lit ''d'' \<mapsto> lit ''__date__|'')) (lit ''d'') (JString (lit ''D''))
       = Inr (JString (lit ''D''))"
  by (simp add: get_def getItem_def decode_def date_eval example_platform_def string_eval)

section \<open>Patterns\<close>

lemma RegExp_source_literal: "literal_text (RegExp_source P p)"
  by (simp add: RegExp_source_def literal_text_def is_line_terminator_def string_eval)

lemma RegExp_source_not_empty: "RegExp_source P p \<noteq> []"
  using RegExp_source_literal [of P p] by (simp add: literal_text_def)

lemma RegExp_source_id: "literal_text p \<Longrightarrow> RegExp_source P p = p"
  by (simp add: RegExp_source_def)

lemma RegExp_source_eq_iff: "RegExp_source P p = p \<longleftrightarrow> literal_text p"
  using RegExp_source_literal [of P p] RegExp_source_id [of p P] by auto

lemma RegExp_source_idem: "RegExp_source P (RegExp_source P p) = RegExp_source P p"
  by (rule RegExp_source_id) (rule RegExp_source_literal)

lemma set_key_regexp:
  "set_key P st key (JRegExp p f) = Inr (st(key \<mapsto> lit ''__expr__|'' @ RegExp_source P p))"
  by (simp add: set_key_string)

lemma get_expr_valid:
  assumes "st key = Some raw" "10 \<le> length raw" "take 8 raw = lit ''__expr__''"
    and "valid_pattern P (drop 9 raw)"
  shows "get P st key D = Inr (JRegExp (drop 9 raw) [])"
proof -
  have "decode P (Some raw) = Inr (JRegExp (drop 9 raw) [])"
    using assms(2-4) by (simp add: decode_expr RegExp_new_def)
  with get_stored [of st key raw P "JRegExp (drop 9 raw) []" D] assms(1) show ?thesis by simp
qed

lemma get_expr_invalid:
  assumes "st key = Some raw" "10 \<le> length raw" "take 8 raw = lit ''__expr__''"
    and "\<not> valid_pattern P (drop 9 raw)"
  shows "get P st key D = Inl SyntaxError"
proof -
  have "decode P (Some raw) = Inl SyntaxError"
    using assms(2-4) by (simp add: decode_expr RegExp_new_def)
  with get_stored_error [of st key raw P SyntaxError D] assms(1) show ?thesis by simp
qed

lemma round_trip_regexp:
  assumes "valid_pattern P (RegExp_source P p)"
  shows "set_then_get P st key (JRegExp p f) D = Inr (JRegExp (RegExp_source P p) [])"
proof -
  have "decode P (Some (lit ''__expr__|'' @ RegExp_source P p)) = Inr (JRegExp (RegExp_source P p) [])"
    using assms by (simp add: decode_enc_expr RegExp_source_not_empty RegExp_new_def)
  with set_then_get_string [of P "JRegExp p f" "lit ''__expr__|'' @ RegExp_source P p"
      "JRegExp (RegExp_source P p) []" st key D]
  show ?thesis by simp
qed

lemma source_text_round_trip:
  "source_text P (JRegExp (RegExp_source P p) []) = source_text P (JRegExp p f)"
  by (simp add: source_text_def RegExp_source_idem)

text \<open>
  C7, as the code has it. \<open>set(key, r)\<close> stores \<open>__expr__|\<close> and the source text of \<open>r\<close>,
  whatever its flags. On a stored string of at least 10 code units with the tag \<open>__expr__\<close>,
  \<open>get\<close> returns the RegExp built from the payload with no flags when the payload is a valid
  pattern, and throws a SyntaxError when it is not; the source text of that RegExp is the
  payload exactly when the payload can stand in a regular expression literal as it is.
  After \<open>set(key, r)\<close>, when the source text of \<open>r\<close> is a valid pattern without its flags,
  \<open>get\<close> returns a RegExp with no flags and the source text of \<open>r\<close>.
\<close>

theorem C7_flags_dropped:
  "set_key P st key (JRegExp p f) = Inr (st(key \<mapsto> lit ''__expr__|'' @ RegExp_source P p))
   \<and> (st key = Some raw \<and> 10 \<le> length raw \<and> take 8 raw = lit ''__expr__''
      \<longrightarrow> (valid_pattern P (drop 9 raw) \<longrightarrow> get P st key D = Inr (JRegExp (drop 9 raw) []))
        \<and> (\<not> valid_pattern P (drop 9 raw) \<longrightarrow> get P st key D = Inl SyntaxError)
        \<and> (source_text P (JRegExp (drop 9 raw) []) = drop 9 raw
             \<longleftrightarrow> literal_text (drop 9 raw)))
   \<and> (valid_pattern P (RegExp_source P p)
      \<longrightarrow> set_then_get P st key (JRegExp p f) D = Inr (JRegExp (RegExp_source P p) [])
        \<and> source_text P (JRegExp (RegExp_source P p) []) = source_text P (JRegExp p f))"
proof -
  have "source_text P (JRegExp (drop 9 raw) []) = drop 9 raw \<longleftrightarrow> literal_text (drop 9 raw)"
    by (simp add: source_text_def RegExp_source_eq_iff)
  then show ?thesis
    using get_expr_valid [of st key raw P D] get_expr_invalid [of st key raw P D]
      round_trip_regexp [of P p st key f D] source_text_round_trip [of P p f]
      set_key_regexp [of P st key p f]
    by blast
qed

theorem C7_witness:
  "set_key example_platform Map.empty (lit ''r'') (JRegExp (lit ''a+b'') (lit ''gi''))
     = Inr (Map.empty(lit ''r'' \<mapsto> lit ''__expr__|a+b''))
   \<and> get example_platform (Map.empty(lit ''r'' \<mapsto> lit ''__expr__|a+b'')) (lit ''r'') JNull
      = Inr (JRegExp (lit ''a+b'') [])
   \<and> source_text example_platform (JRegExp (lit ''a+b'') []) = lit ''a+b''
   \<and> get example_platform (Map.empty(lit ''r'' \<mapsto> lit ''__expr__|a+(b'')) (lit ''r'') JNull
      = Inl SyntaxError
   \<and> set_then_get example_platform Map.empty (lit ''r'') (JRegExp (lit ''a+b'') (lit ''gi'')) JNull
      = Inr (JRegExp (lit ''a+b'') [])
   \<and> source_text example_platform (JRegExp (lit ''a+b'') (lit ''gi'')) = lit ''a+b''"
proof -
  have l: "literal_text (lit ''a+b'')"
    by (simp add: literal_text_def is_line_terminator_def string_eval)
  have s: "RegExp_source example_platform (lit ''a+b'') = lit ''a+b''"
    using l by (rule RegExp_source_id)
  have v: "valid_pattern example_platform (lit ''a+b'')"
    "\<not> valid_pattern example_platform (lit ''a+(b'')"
    by (simp_all add: valid_pattern_def example_platform_def string_eval)
  have e: "lit ''__expr__|'' @ lit ''a+b'' = lit ''__expr__|a+b''" by (simp add: lit_def)
  have d: "drop 9 (lit ''__expr__|a+b'') = lit ''a+b''" "take 8 (lit ''__expr__|a+b'') = lit ''__expr__''"
    "drop 9 (lit ''__expr__|a+(b'') = lit ''a+(b''" "take 8 (lit ''__expr__|a+(b'') = lit ''__expr__''"
    by (simp_all add: lit_def)
  have t: "source_text example_platform (JRegExp (lit ''a+b'') (lit ''gi'')) = lit ''a+b''"
    by (simp add: source_text_def s)
  show ?thesis
    using C7_flags_dropped [of example_platform Map.empty "lit ''r''" "lit ''a+b''" "lit ''gi''"
        "lit ''__expr__|a+b''" JNull]
      C7_flags_dropped [of example_platform "Map.empty(lit ''r'' \<mapsto> lit ''__expr__|a+b'')" "lit ''r''"
        "lit ''a+b''" "lit ''gi''" "lit ''__expr__|a+b''" JNull]
      C7_flags_dropped [of example_platform "Map.empty(lit ''r'' \<mapsto> lit ''__expr__|a+(b'')" "lit ''r''"
        "lit ''a+b''" "lit ''gi''" "lit ''__expr__|a+(b''" JNull]
    by (simp add: s v e d l t length_lit)
qed

theorem C7_counterexample:
  "take 8 (lit ''__expr__|[a-z'') = lit ''__expr__''
   \<and> get example_platform (Map.empty(lit ''r'' \<mapsto> lit ''__expr__|[a-z'')) (lit ''r'') JNull
       = Inl SyntaxError
   \<and> take 8 (lit ''__expr__|/'') = lit ''__expr__''
   \<and> get example_platform (Map.empty(lit ''r'' \<mapsto> lit ''__expr__|/'')) (lit ''r'') JNull
       = Inr (JRegExp (lit ''/'') [])
   \<and> source_text example_platform (JRegExp (lit ''/'') []) = lit [CHR 0x5C, CHR ''/'']
   \<and> lit [CHR 0x5C, CHR ''/''] \<noteq> lit ''/''"
  by (simp add: get_def getItem_def decode_def RegExp_new_def valid_pattern_def source_text_def
      RegExp_source_def literal_text_def is_line_terminator_def example_platform_def string_eval)

section \<open>Days and years\<close>

lemma div_bounds:
  fixes x :: int
  assumes "0 < n" "q = x div n"
  shows "x - (n - 1) \<le> n * q" "n * q \<le> x"
proof -
  have "x = n * q + x mod n" using assms(2) by simp
  moreover have "0 \<le> x mod n" "x mod n < n" using assms(1) by simp_all
  ultimately show "x - (n - 1) \<le> n * q" "n * q \<le> x" by linarith+
qed

lemma DayFromYear_bounds:
  "146097 * (y - 1970) - 506 \<le> 400 * DayFromYear y"
  "400 * DayFromYear y \<le> 146097 * (y - 1970) + 589"
proof -
  define a where "a = (y - 1969) div 4"
  define b where "b = (y - 1901) div 100"
  define c where "c = (y - 1601) div 400"
  note A = div_bounds [of 4 a "y - 1969", OF _ a_def, simplified]
  note B = div_bounds [of 100 b "y - 1901", OF _ b_def, simplified]
  note C = div_bounds [of 400 c "y - 1601", OF _ c_def, simplified]
  have D: "DayFromYear y = 365 * (y - 1970) + a - b + c"
    by (simp add: DayFromYear_def a_def b_def c_def)
  show "146097 * (y - 1970) - 506 \<le> 400 * DayFromYear y"
    unfolding D using A B C by (simp add: algebra_simps)
  show "400 * DayFromYear y \<le> 146097 * (y - 1970) + 589"
    unfolding D using A B C by (simp add: algebra_simps)
qed


lemma YearFromDay_upper: "d < DayFromYear (YearFromDay d + 1)"
proof -
  define e where "e = (400 * d) div 146097"
  note E = div_bounds [of 146097 e "400 * d", OF _ e_def, simplified]
  have "d < DayFromYear (1970 + e + 1 + 1)"
    using DayFromYear_bounds(1) [of "1970 + e + 1 + 1"] E by (simp add: algebra_simps)
  then show ?thesis
    unfolding YearFromDay_def Let_def e_def by (auto simp: algebra_simps)
qed

















section \<open>Digits\<close>

declare show_nat.simps [simp del]














section \<open>Reading back what toUTCString writes\<close>












section \<open>Integers as numbers\<close>

declare bit_length.simps [simp del]





















section \<open>Decimals as numbers\<close>



lemma pow10_nat: "pow10 (int j) = 10 ^ j"
  by (simp add: pow10_def)

















section \<open>Numbers as decimals\<close>






section \<open>Round trips\<close>








section \<open>Examples\<close>








end
